theory Spec2Isabelle
  imports Main "HOL-Library.Word" "HOL-Library.Signed_Division" "HOL-Library.Sublist"
begin

section \<open>Shallow embedding of realm-library/src/main/cpp/util.hpp\<close>

subsection \<open>Machine types\<close>

text \<open>
  \<open>jlong\<close> and \<open>int64_t\<close> are 64-bit two's complement, \<open>int32_t\<close> is 32-bit,
  \<open>jboolean\<close> is an unsigned 8-bit value, \<open>size_t\<close> is taken at 64 bits. Words wrap
  around; \<open>sint\<close> reads a word as signed, \<open>uint\<close>/\<open>unat\<close> as unsigned.
\<close>

type_synonym jlong = "64 word"
type_synonym int64_t = "64 word"
type_synonym int32_t = "32 word"
type_synonym size_t = "64 word"
type_synonym jboolean = "8 word"

text \<open>
  C++ \<open>/\<close> and \<open>%\<close> on signed integers truncate towards zero: the quotient and the
  remainder of the signed readings, by \<open>sdiv\<close> and \<open>smod\<close> on \<open>int\<close>.
\<close>

definition word_sdiv :: "'a::len word \<Rightarrow> 'a word \<Rightarrow> 'a word" where
  "word_sdiv a b = word_of_int (sint a sdiv sint b)"

definition word_smod :: "'a::len word \<Rightarrow> 'a word \<Rightarrow> 'a word" where
  "word_smod a b = word_of_int (sint a smod sint b)"

subsection \<open>Exception kinds and the state seen through \<open>JNIEnv*\<close>\<close>

datatype ExceptionKind =
    ClassNotFound
  | IllegalArgument
  | IndexOutOfBounds
  | UnsupportedOperation
  | OutOfMemory
  | FatalError
  | RuntimeError
  | BadVersion
  | IllegalState
  | RealmFileError
  | ExceptionKindMax

text \<open>
  Modelled from the spec: \<open>realm::Obj\<close> (realm core, not under src/). The spec's handle has
  "a liveness predicate (checked via the referenced object's own is-this-valid query)";
  \<open>is_valid\<close> is that query.
\<close>

record Obj =
  is_valid :: bool

text \<open>
  The state the validators act on: the engine's objects by native address (what
  \<open>ROW(x)\<close> points at), the lines written by \<open>Log::e\<close> (format string and arguments),
  and the host exceptions raised through \<open>ThrowException\<close> (kind, \<open>classStr\<close>, \<open>itemStr\<close>),
  both in call order.
\<close>

record JNIEnv =
  objects :: "int64_t \<Rightarrow> Obj"
  logged :: "(string \<times> int list) list"
  raised :: "(ExceptionKind \<times> string \<times> string) list"

definition Log_e :: "JNIEnv \<Rightarrow> string \<Rightarrow> int list \<Rightarrow> JNIEnv" where
  "Log_e env fmt args = env\<lparr>logged := logged env @ [(fmt, args)]\<rparr>"

text \<open>
  Modelled from the spec: \<open>ThrowException\<close> is declared in util.hpp and defined in util.cpp,
  which is not under src/. The spec: "raise(env, kind, message) constructs and delivers the
  corresponding host exception; a second overload also takes an offending item identifier".
  It returns to its caller (the validators go on to \<open>return false\<close> after it), so raising is
  recording the exception in the state.
\<close>

definition ThrowException :: "JNIEnv \<Rightarrow> ExceptionKind \<Rightarrow> string \<Rightarrow> string \<Rightarrow> JNIEnv" where
  "ThrowException env exception classStr itemStr =
     env\<lparr>raised := raised env @ [(exception, classStr, itemStr)]\<rparr>"

subsection \<open>Booleans\<close>

definition JNI_FALSE :: jboolean where
  "JNI_FALSE = 0"

definition JNI_TRUE :: jboolean where
  "JNI_TRUE = 1"

definition to_bool :: "jboolean \<Rightarrow> bool" where
  "to_bool b = (b = JNI_TRUE)"

definition to_jbool :: "bool \<Rightarrow> jboolean" where
  "to_jbool b = (if b then JNI_TRUE else JNI_FALSE)"

subsection \<open>The engine's constants and key types\<close>

text \<open>
  Modelled from the spec: the engine's constants and key tests that util.hpp uses and
  realm core declares (its headers are not under src/): the "not-found sentinel"
  \<open>realm::not_found\<close>, the "max string length constant" \<open>realm::Table::max_string_size\<close>,
  the type tags \<open>realm::type_Link\<close> and \<open>realm::type_LinkList\<close>, and \<open>operator bool\<close> of
  \<open>realm::ColKey\<close> and \<open>realm::ObjKey\<close> (false on the null key). They are parameters of
  the functions that use them; nothing is assumed of their values.
\<close>

datatype ColKey = ColKey (col_value: int64_t)

datatype ObjKey = ObjKey (obj_value: int64_t)

record realm =
  not_found :: size_t
  max_string_size :: size_t
  type_Link :: int
  type_LinkList :: int
  ColKey_bool :: "ColKey \<Rightarrow> bool"
  ObjKey_bool :: "ObjKey \<Rightarrow> bool"

text \<open>The three overloads of \<open>to_jlong_or_not_found\<close>; \<open>jlong(res)\<close> keeps the 64 bits.\<close>

definition to_jlong_or_not_found :: "realm \<Rightarrow> size_t \<Rightarrow> jlong" where
  "to_jlong_or_not_found rc res = (if res = not_found rc then - 1 else ucast res)"

definition to_jlong_or_not_found_ColKey :: "realm \<Rightarrow> ColKey \<Rightarrow> jlong" where
  "to_jlong_or_not_found_ColKey rc key = (if ColKey_bool rc key then col_value key else - 1)"

definition to_jlong_or_not_found_ObjKey :: "realm \<Rightarrow> ObjKey \<Rightarrow> jlong" where
  "to_jlong_or_not_found_ObjKey rc key = (if ObjKey_bool rc key then obj_value key else - 1)"

subsection \<open>Handle validation\<close>

text \<open>
  Modelled from the spec: the table introspection calls of the template parameter \<open>T\<close>
  (\<open>realm::Table\<close>, not under src/): "get column type", "get column name",
  "is column nullable", "is column a list". A \<open>realm::TableRef\<close> is empty or detached
  (\<open>None\<close>) or refers to a table.
\<close>

record Table =
  get_column_type :: "ColKey \<Rightarrow> int"
  get_column_name :: "ColKey \<Rightarrow> string"
  is_list :: "ColKey \<Rightarrow> bool"
  is_nullable :: "ColKey \<Rightarrow> bool"

type_synonym TableRef = "Table option"

definition TableIsValid :: "JNIEnv \<Rightarrow> TableRef \<Rightarrow> bool \<times> JNIEnv" where
  "TableIsValid env table =
     (let env1 = (case table of
                    None \<Rightarrow>
                      ThrowException (Log_e env ''Table is no longer attached!'' [])
                        IllegalState ''Table is no longer valid to operate on.'' []
                  | Some t \<Rightarrow> env)
      in (True, env1))"

definition RowIsValid :: "JNIEnv \<Rightarrow> int64_t \<Rightarrow> bool \<times> JNIEnv" where
  "RowIsValid env rowPtr =
     (let valid = (rowPtr \<noteq> 0 \<and> is_valid (objects env rowPtr));
          env1 = (if \<not> valid
                  then ThrowException (Log_e env ''Row %1 is no longer attached!'' [sint rowPtr])
                         IllegalState
                         ''Object is no longer valid to operate on. Was it deleted by another thread?''
                         []
                  else env)
      in (valid, env1))"

definition TypeValid :: "JNIEnv \<Rightarrow> Table \<Rightarrow> jlong \<Rightarrow> int \<Rightarrow> bool \<times> JNIEnv" where
  "TypeValid env pTable columnIndex expectColType =
     (let col_key = ColKey columnIndex;
          colType = get_column_type pTable col_key
      in if colType \<noteq> expectColType
         then (False,
               ThrowException
                 (Log_e env ''Expected columnType %1, but got %2.'' [expectColType, colType])
                 IllegalArgument
                 (''ColumnType of '' @ [CHR 0x27] @ get_column_name pTable col_key
                    @ [CHR 0x27] @ '' is invalid.'') [])
         else (True, env))"

definition ColIsNullable :: "realm \<Rightarrow> JNIEnv \<Rightarrow> Table \<Rightarrow> jlong \<Rightarrow> bool \<times> JNIEnv" where
  "ColIsNullable rc env pTable columnKey =
     (let col = ColKey columnKey;
          colType = get_column_type pTable col
      in if colType = type_Link rc then (True, env)
         else if colType = type_LinkList rc
         then (False,
               ThrowException env IllegalArgument
                 (''RealmList('' @ get_column_name pTable col @ '') is not nullable.'') [])
         else if is_list pTable col
         then (False,
               ThrowException env IllegalArgument
                 (''RealmList('' @ get_column_name pTable col @ '') is not nullable.'') [])
         else if is_nullable pTable col then (True, env)
         else (False,
               ThrowException (Log_e env ''Expected nullable column type'' [])
                 IllegalArgument
                 (''This field('' @ get_column_name pTable col @ '') is not nullable.'') []))"

text \<open>
  The checking macros, as expanded under a value of the compile-time flag
  \<open>CHECK_PARAMETERS\<close>. \<open>TABLE_VALID\<close> and \<open>ROW_VALID\<close> are defined outside the \<open>#if\<close>.
\<close>

definition CHECK_PARAMETERS :: bool where
  "CHECK_PARAMETERS = True"

definition TABLE_VALID :: "bool \<Rightarrow> JNIEnv \<Rightarrow> TableRef \<Rightarrow> bool \<times> JNIEnv" where
  "TABLE_VALID check_parameters env ptr = TableIsValid env ptr"

definition ROW_VALID :: "bool \<Rightarrow> JNIEnv \<Rightarrow> int64_t \<Rightarrow> bool \<times> JNIEnv" where
  "ROW_VALID check_parameters env ptr = RowIsValid env ptr"

definition TYPE_VALID :: "bool \<Rightarrow> JNIEnv \<Rightarrow> Table \<Rightarrow> jlong \<Rightarrow> int \<Rightarrow> bool \<times> JNIEnv" where
  "TYPE_VALID check_parameters env ptr col type =
     (if check_parameters then TypeValid env ptr col type else (True, env))"

definition COL_NULLABLE :: "bool \<Rightarrow> realm \<Rightarrow> JNIEnv \<Rightarrow> Table \<Rightarrow> jlong \<Rightarrow> bool \<times> JNIEnv" where
  "COL_NULLABLE check_parameters rc env ptr columnKey =
     (if check_parameters then ColIsNullable rc env ptr columnKey else (True, env))"

subsection \<open>JStringAccessor\<close>

text \<open>
  Modelled from the spec: \<open>realm::StringData\<close> (realm core, not under src/): a view of
  bytes, or the "distinguished null string value, distinct from an empty string" that the
  default constructor \<open>StringData()\<close> gives.
\<close>

datatype StringData = StringData_null | StringData string

text \<open>
  The accessor's fields after construction (the constructor, in util.cpp, is not under
  src/): \<open>m_data\<close> is the transcoded buffer, \<open>m_size\<close> its length in bytes. \<open>m_env\<close> is
  only handed to the exception that \<open>operator StringData\<close> throws and is left out.
\<close>

record JStringAccessor =
  m_is_null :: bool
  m_data :: string
  m_size :: size_t

definition is_null_or_empty :: "JStringAccessor \<Rightarrow> bool" where
  "is_null_or_empty a = (m_is_null a \<or> m_size a = 0)"

text \<open>
  \<open>THROW_JAVA_EXCEPTION\<close> throws a C++ exception, so the conversion does not return a
  value there: the result is a sum, \<open>Inl\<close> the exception (its kind, the format string and
  the two formatted sizes).
\<close>

definition operator_StringData ::
    "realm \<Rightarrow> JStringAccessor \<Rightarrow> (ExceptionKind \<times> string \<times> size_t list) + StringData" where
  "operator_StringData rc a =
     (if m_is_null a then Inr StringData_null
      else if m_size a > max_string_size rc
      then Inl (IllegalArgument,
                ''The length of 'String' value in UTF8 encoding is %1 which exceeds the max string length %2.'',
                [m_size a, max_string_size rc])
      else Inr (StringData (take (unat (m_size a)) (m_data a))))"

definition operator_std_string :: "JStringAccessor \<Rightarrow> string" where
  "operator_std_string a =
     (if m_is_null a then [] else take (unat (m_size a)) (m_data a))"

subsection \<open>Timestamps\<close>

text \<open>
  Modelled from the spec: \<open>realm::Timestamp\<close> (realm/timestamp.hpp, not under src/): a pair
  of seconds and nanoseconds with its "seconds/nanoseconds accessors".
\<close>

record Timestamp =
  get_seconds :: int64_t
  get_nanoseconds :: int32_t

text \<open>
  \<open>nanoseconds / 1000000\<close> is a 32-bit signed division whose result is sign-extended for
  the 64-bit addition; \<open>seconds * 1000 + ...\<close> wraps around ("This may overflow").
\<close>

definition to_milliseconds :: "Timestamp \<Rightarrow> jlong" where
  "to_milliseconds ts =
     (let seconds = get_seconds ts;
          nanoseconds = get_nanoseconds ts;
          milliseconds = seconds * 1000 + scast (word_sdiv nanoseconds 1000000)
      in milliseconds)"

text \<open>
  \<open>(milliseconds % 1000) * 1000000\<close> is computed at 64 bits and narrowed to \<open>int32_t\<close>.
\<close>

definition from_milliseconds :: "jlong \<Rightarrow> Timestamp" where
  "from_milliseconds milliseconds =
     (let seconds = word_sdiv milliseconds 1000;
          nanoseconds = (ucast (word_smod milliseconds 1000 * 1000000) :: int32_t)
      in \<lparr>get_seconds = seconds, get_nanoseconds = nanoseconds\<rparr>)"

subsection \<open>Concrete inputs\<close>

text \<open>
  An engine whose only live object is at address 16, with nothing logged or raised yet;
  constants as realm core has them, except a maximum string length of 4 bytes to keep the
  examples short; and a table whose column keys 2 and 3 are the list column and the
  nullable column, every column being named \<open>age\<close> and typed by its key.
\<close>

definition example_env :: JNIEnv where
  "example_env = \<lparr>objects = (\<lambda>p. \<lparr>is_valid = (p = 16)\<rparr>), logged = [], raised = []\<rparr>"

definition example_realm :: realm where
  "example_realm =
     \<lparr>not_found = - 1, max_string_size = 4, type_Link = 12, type_LinkList = 13,
      ColKey_bool = (\<lambda>k. col_value k \<noteq> 9223372036854775807),
      ObjKey_bool = (\<lambda>k. obj_value k \<noteq> - 1)\<rparr>"

definition example_table :: Table where
  "example_table =
     \<lparr>get_column_type = (\<lambda>k. sint (col_value k)),
      get_column_name = (\<lambda>k. ''age''),
      is_list = (\<lambda>k. col_value k = 2),
      is_nullable = (\<lambda>k. col_value k = 3)\<rparr>"

section \<open>Properties\<close>

text \<open>
  C9: \<open>to_bool\<close> is true exactly for the canonical value 1 of \<open>JNI_TRUE\<close>; every other bit
  pattern of a \<open>jboolean\<close>, the non-canonical nonzero ones included (2 and 255 are
  evaluated), gives false; and \<open>to_bool (to_jbool b) = b\<close> for every native bool.
\<close>

theorem to_bool_canonical:
  "to_bool b = (b = 1)
   \<and> (b \<noteq> JNI_TRUE \<longrightarrow> \<not> to_bool b)
   \<and> \<not> to_bool 0 \<and> \<not> to_bool 2 \<and> \<not> to_bool 255
   \<and> to_bool (to_jbool c) = c"
  by (simp add: to_bool_def to_jbool_def JNI_TRUE_def JNI_FALSE_def)

theorem to_bool_canonical_witness:
  "(2::jboolean) \<noteq> JNI_TRUE \<and> \<not> to_bool 2 \<and> to_bool (to_jbool True) = True"
  using to_bool_canonical [of 2 True] by (simp add: JNI_TRUE_def)

subsection \<open>Handle validation\<close>

text \<open>
  C1: on the code, for an empty or detached table reference \<open>TableIsValid\<close> logs
  "Table is no longer attached!" and raises IllegalState with "Table is no longer valid to
  operate on.", but its result is \<open>true\<close>, not \<open>false\<close>: the function ends in
  \<open>return true\<close> on every path. For an attached reference it returns \<open>true\<close> and leaves
  the state as it was.
\<close>

theorem TableIsValid_detached_returns_true:
  "fst (TableIsValid env None) = True
   \<and> logged (snd (TableIsValid env None)) = logged env @ [(''Table is no longer attached!'', [])]
   \<and> raised (snd (TableIsValid env None))
       = raised env @ [(IllegalState, ''Table is no longer valid to operate on.'', [])]
   \<and> TableIsValid env (Some t) = (True, env)"
  by (simp add: TableIsValid_def ThrowException_def Log_e_def)

text \<open>
  C5: \<open>RowIsValid\<close> returns true exactly when the pointer is not null and the object it
  points at reports itself valid, and then changes nothing. Otherwise it returns false,
  raises IllegalState once, with the message that asks whether the object was deleted by
  another thread, and logs one line carrying the pointer's address. In both cases the
  engine's objects are as before.
\<close>

theorem RowIsValid_iff:
  "fst (RowIsValid env rowPtr) = (rowPtr \<noteq> 0 \<and> is_valid (objects env rowPtr))
   \<and> (rowPtr \<noteq> 0 \<and> is_valid (objects env rowPtr) \<longrightarrow> snd (RowIsValid env rowPtr) = env)
   \<and> (\<not> (rowPtr \<noteq> 0 \<and> is_valid (objects env rowPtr)) \<longrightarrow>
        raised (snd (RowIsValid env rowPtr))
          = raised env @ [(IllegalState,
              ''Object is no longer valid to operate on. Was it deleted by another thread?'', [])]
        \<and> logged (snd (RowIsValid env rowPtr))
          = logged env @ [(''Row %1 is no longer attached!'', [sint rowPtr])])
   \<and> objects (snd (RowIsValid env rowPtr)) = objects env"
  by (simp add: RowIsValid_def ThrowException_def Log_e_def Let_def)

theorem RowIsValid_iff_witness:
  "(16 \<noteq> (0::int64_t) \<and> is_valid (objects example_env 16)
      \<and> RowIsValid example_env 16 = (True, example_env))
   \<and> (\<not> (32 \<noteq> (0::int64_t) \<and> is_valid (objects example_env 32))
      \<and> \<not> fst (RowIsValid example_env 32)
      \<and> length (raised (snd (RowIsValid example_env 32))) = 1
      \<and> logged (snd (RowIsValid example_env 32)) = [(''Row %1 is no longer attached!'', [32])])
   \<and> \<not> fst (RowIsValid example_env 0)"
  using RowIsValid_iff [of example_env 16] RowIsValid_iff [of example_env 32]
    RowIsValid_iff [of example_env 0]
  by (simp add: example_env_def prod_eq_iff)

text \<open>
  C3: \<open>ColIsNullable\<close> returns true and raises nothing for a column of type Link. For a
  column that is not of type Link and is of type LinkList or is a list, whatever its
  element type, it returns false and raises IllegalArgument once with a message that
  contains the column's name. For every other column its result is the column's nullable
  flag: true with nothing raised when the flag is set, false with one IllegalArgument
  whose message contains the column's name when it is not.
\<close>

theorem ColIsNullable_policy:
  "(get_column_type pTable (ColKey columnKey) = type_Link rc \<longrightarrow>
      ColIsNullable rc env pTable columnKey = (True, env))
   \<and> (get_column_type pTable (ColKey columnKey) \<noteq> type_Link rc
        \<and> (get_column_type pTable (ColKey columnKey) = type_LinkList rc
             \<or> is_list pTable (ColKey columnKey)) \<longrightarrow>
      \<not> fst (ColIsNullable rc env pTable columnKey)
      \<and> logged (snd (ColIsNullable rc env pTable columnKey)) = logged env
      \<and> (\<exists>msg. raised (snd (ColIsNullable rc env pTable columnKey))
                   = raised env @ [(IllegalArgument, msg, [])]
                 \<and> sublist (get_column_name pTable (ColKey columnKey)) msg))
   \<and> (get_column_type pTable (ColKey columnKey) \<noteq> type_Link rc
        \<and> get_column_type pTable (ColKey columnKey) \<noteq> type_LinkList rc
        \<and> \<not> is_list pTable (ColKey columnKey) \<longrightarrow>
      fst (ColIsNullable rc env pTable columnKey) = is_nullable pTable (ColKey columnKey)
      \<and> (is_nullable pTable (ColKey columnKey) \<longrightarrow>
            snd (ColIsNullable rc env pTable columnKey) = env)
      \<and> (\<not> is_nullable pTable (ColKey columnKey) \<longrightarrow>
            (\<exists>msg. raised (snd (ColIsNullable rc env pTable columnKey))
                     = raised env @ [(IllegalArgument, msg, [])]
                   \<and> sublist (get_column_name pTable (ColKey columnKey)) msg)))"
proof -
  let ?name = "get_column_name pTable (ColKey columnKey)"
  have s1: "sublist ?name (''RealmList('' @ ?name @ '') is not nullable.'')"
    by (rule sublist_appendI)
  have s2: "sublist ?name (''This field('' @ ?name @ '') is not nullable.'')"
    by (rule sublist_appendI)
  show ?thesis
    using s1 s2
    by (simp add: ColIsNullable_def ThrowException_def Log_e_def Let_def)
qed

theorem ColIsNullable_policy_witness:
  "(get_column_type example_table (ColKey 12) = type_Link example_realm
      \<and> ColIsNullable example_realm example_env example_table 12 = (True, example_env))
   \<and> (get_column_type example_table (ColKey 13) \<noteq> type_Link example_realm
      \<and> get_column_type example_table (ColKey 13) = type_LinkList example_realm
      \<and> \<not> fst (ColIsNullable example_realm example_env example_table 13))
   \<and> (get_column_type example_table (ColKey 2) \<noteq> type_Link example_realm
      \<and> is_list example_table (ColKey 2)
      \<and> \<not> fst (ColIsNullable example_realm example_env example_table 2))
   \<and> (get_column_type example_table (ColKey 3) \<noteq> type_Link example_realm
      \<and> get_column_type example_table (ColKey 3) \<noteq> type_LinkList example_realm
      \<and> \<not> is_list example_table (ColKey 3) \<and> is_nullable example_table (ColKey 3)
      \<and> ColIsNullable example_realm example_env example_table 3 = (True, example_env))
   \<and> (get_column_type example_table (ColKey 4) \<noteq> type_Link example_realm
      \<and> get_column_type example_table (ColKey 4) \<noteq> type_LinkList example_realm
      \<and> \<not> is_list example_table (ColKey 4) \<and> \<not> is_nullable example_table (ColKey 4)
      \<and> \<not> fst (ColIsNullable example_realm example_env example_table 4))"
  using ColIsNullable_policy [of example_table 12 example_realm example_env]
    ColIsNullable_policy [of example_table 13 example_realm example_env]
    ColIsNullable_policy [of example_table 2 example_realm example_env]
    ColIsNullable_policy [of example_table 3 example_realm example_env]
    ColIsNullable_policy [of example_table 4 example_realm example_env]
  by (simp add: example_table_def example_realm_def prod_eq_iff)

text \<open>
  C8: with the parameter-checking flag off, \<open>TYPE_VALID\<close> and \<open>COL_NULLABLE\<close> are
  \<open>true\<close> and touch nothing, whatever the table and the column. \<open>TABLE_VALID\<close> and
  \<open>ROW_VALID\<close> are \<open>TableIsValid\<close> and \<open>RowIsValid\<close> under either value of the flag:
  with the flag off an empty table reference still raises IllegalState and a null object
  pointer still gives false and IllegalState. With the flag as util.hpp sets it, the type
  and nullability checks are \<open>TypeValid\<close> and \<open>ColIsNullable\<close>.
\<close>

theorem CHECK_PARAMETERS_disabled:
  "TYPE_VALID False env pTable col expectColType = (True, env)
   \<and> COL_NULLABLE False rc env pTable col = (True, env)
   \<and> TABLE_VALID check_parameters env table = TableIsValid env table
   \<and> ROW_VALID check_parameters env rowPtr = RowIsValid env rowPtr
   \<and> raised (snd (TABLE_VALID False env None))
       = raised env @ [(IllegalState, ''Table is no longer valid to operate on.'', [])]
   \<and> \<not> fst (ROW_VALID False env 0)
   \<and> raised (snd (ROW_VALID False env 0))
       = raised env @ [(IllegalState,
           ''Object is no longer valid to operate on. Was it deleted by another thread?'', [])]
   \<and> TYPE_VALID CHECK_PARAMETERS env pTable col expectColType
       = TypeValid env pTable col expectColType
   \<and> COL_NULLABLE CHECK_PARAMETERS rc env pTable col = ColIsNullable rc env pTable col"
  by (simp add: TYPE_VALID_def COL_NULLABLE_def TABLE_VALID_def ROW_VALID_def
        CHECK_PARAMETERS_def TableIsValid_def RowIsValid_def ThrowException_def Log_e_def)

subsection \<open>Index and key conversion\<close>

lemma sint_eq_uint_64:
  fixes res :: "64 word"
  assumes "uint res < 2 ^ 63"
  shows "sint res = uint res"
proof -
  have "- (2 ^ 63) \<le> (0::int)" by simp
  then have "- (2 ^ 63) \<le> uint res"
    using uint_ge_0 [of res] by (rule order_trans)
  with assms show ?thesis
    by (simp add: sint_uint signed_take_bit_int_eq_self)
qed

text \<open>
  C6: \<open>to_jlong_or_not_found\<close> maps the not-found sentinel to \<open>-1\<close>; it maps 0 to 0
  (the sentinel is not 0); every other index keeps its bits, and its numeric value when
  that fits a \<open>jlong\<close>. The key overloads map the null key (the one whose \<open>operator bool\<close>
  is false) to \<open>-1\<close> and every other key to its value, a key of value 0 to 0.
\<close>

theorem to_jlong_or_not_found_cases:
  "to_jlong_or_not_found rc (not_found rc) = - 1
   \<and> (not_found rc \<noteq> 0 \<longrightarrow> to_jlong_or_not_found rc 0 = 0)
   \<and> (res \<noteq> not_found rc \<longrightarrow>
        to_jlong_or_not_found rc res = res
        \<and> (uint res < 2 ^ 63 \<longrightarrow> sint (to_jlong_or_not_found rc res) = uint res))
   \<and> (\<not> ColKey_bool rc ck \<longrightarrow> to_jlong_or_not_found_ColKey rc ck = - 1)
   \<and> (ColKey_bool rc ck \<longrightarrow> to_jlong_or_not_found_ColKey rc ck = col_value ck)
   \<and> (\<not> ObjKey_bool rc ok \<longrightarrow> to_jlong_or_not_found_ObjKey rc ok = - 1)
   \<and> (ObjKey_bool rc ok \<longrightarrow> to_jlong_or_not_found_ObjKey rc ok = obj_value ok)"
  using sint_eq_uint_64 [of res]
  by (simp add: to_jlong_or_not_found_def to_jlong_or_not_found_ColKey_def
        to_jlong_or_not_found_ObjKey_def)

theorem to_jlong_or_not_found_cases_witness:
  "to_jlong_or_not_found example_realm (not_found example_realm) = - 1
   \<and> (not_found example_realm \<noteq> 0 \<and> to_jlong_or_not_found example_realm 0 = 0)
   \<and> ((7::size_t) \<noteq> not_found example_realm \<and> uint (7::size_t) < 2 ^ 63
        \<and> sint (to_jlong_or_not_found example_realm 7) = 7)
   \<and> (\<not> ColKey_bool example_realm (ColKey 9223372036854775807)
        \<and> to_jlong_or_not_found_ColKey example_realm (ColKey 9223372036854775807) = - 1)
   \<and> (ColKey_bool example_realm (ColKey 0)
        \<and> to_jlong_or_not_found_ColKey example_realm (ColKey 0) = 0)
   \<and> (\<not> ObjKey_bool example_realm (ObjKey (- 1))
        \<and> to_jlong_or_not_found_ObjKey example_realm (ObjKey (- 1)) = - 1)
   \<and> (ObjKey_bool example_realm (ObjKey 0)
        \<and> to_jlong_or_not_found_ObjKey example_realm (ObjKey 0) = 0)"
  using to_jlong_or_not_found_cases
      [of example_realm 7 "ColKey 9223372036854775807" "ObjKey (- 1)"]
    to_jlong_or_not_found_cases [of example_realm 0 "ColKey 0" "ObjKey 0"]
  by (simp add: example_realm_def)

subsection \<open>JStringAccessor\<close>

text \<open>
  C4: for an accessor that holds a string (it is not the null string) whose size in bytes
  is above the engine's maximum, \<open>operator StringData\<close> throws IllegalArgument, with the
  size and the maximum as the formatted arguments, while \<open>operator std::string\<close> on the
  same accessor returns its \<open>m_size\<close> bytes. The check is in the conversion: the accessor
  exists with that size, and a size at the maximum converts.
\<close>

theorem operator_StringData_too_long:
  "\<not> m_is_null a \<and> m_size a > max_string_size rc \<longrightarrow>
     operator_StringData rc a
       = Inl (IllegalArgument,
              ''The length of 'String' value in UTF8 encoding is %1 which exceeds the max string length %2.'',
              [m_size a, max_string_size rc])
     \<and> operator_std_string a = take (unat (m_size a)) (m_data a)"
  by (simp add: operator_StringData_def operator_std_string_def)

theorem operator_StringData_too_long_witness:
  "\<not> m_is_null \<lparr>m_is_null = False, m_data = ''hello'', m_size = 5\<rparr>
   \<and> m_size \<lparr>m_is_null = False, m_data = ''hello'', m_size = 5\<rparr> > max_string_size example_realm
   \<and> (\<exists>fmt. operator_StringData example_realm \<lparr>m_is_null = False, m_data = ''hello'', m_size = 5\<rparr>
        = Inl (IllegalArgument, fmt, [5, 4]))
   \<and> operator_std_string \<lparr>m_is_null = False, m_data = ''hello'', m_size = 5\<rparr> = ''hello''
   \<and> operator_StringData example_realm \<lparr>m_is_null = False, m_data = ''hell'', m_size = 4\<rparr>
        = Inr (StringData ''hell'')"
  using operator_StringData_too_long
    [of "\<lparr>m_is_null = False, m_data = ''hello'', m_size = 5\<rparr>" example_realm]
  by (simp add: example_realm_def operator_StringData_def)

text \<open>
  C7: the null accessor converts to the null \<open>StringData\<close> and to the empty
  \<open>std::string\<close>; the accessor of the empty string converts to the empty \<open>StringData\<close>,
  which is not the null one.
\<close>

theorem null_accessor_conversions:
  "(m_is_null a \<longrightarrow>
      operator_StringData rc a = Inr StringData_null
      \<and> operator_std_string a = [])
   \<and> (\<not> m_is_null b \<and> m_size b = 0 \<longrightarrow>
      operator_StringData rc b = Inr (StringData [])
      \<and> operator_std_string b = [])
   \<and> StringData_null \<noteq> StringData []"
  by (simp add: operator_StringData_def operator_std_string_def)

theorem null_accessor_conversions_witness:
  "(m_is_null \<lparr>m_is_null = True, m_data = [], m_size = 0\<rparr>
     \<and> operator_StringData example_realm \<lparr>m_is_null = True, m_data = [], m_size = 0\<rparr>
         = Inr StringData_null
     \<and> operator_std_string \<lparr>m_is_null = True, m_data = [], m_size = 0\<rparr> = [])
   \<and> (\<not> m_is_null \<lparr>m_is_null = False, m_data = [], m_size = 0\<rparr>
     \<and> m_size \<lparr>m_is_null = False, m_data = [], m_size = 0\<rparr> = 0
     \<and> operator_StringData example_realm \<lparr>m_is_null = False, m_data = [], m_size = 0\<rparr>
         = Inr (StringData []))"
  using null_accessor_conversions
      [of "\<lparr>m_is_null = True, m_data = [], m_size = 0\<rparr>" example_realm
          "\<lparr>m_is_null = False, m_data = [], m_size = 0\<rparr>"]
  by simp

text \<open>
  C10: \<open>is_null_or_empty\<close> is true exactly when the accessor is the null string or its
  size in bytes is 0. The null accessor and the accessor of the empty string both satisfy
  it, and their conversions to \<open>StringData\<close> differ.
\<close>

theorem is_null_or_empty_iff:
  "is_null_or_empty a = (m_is_null a \<or> unat (m_size a) = 0)
   \<and> (m_is_null a \<longrightarrow> is_null_or_empty a)
   \<and> (\<not> m_is_null b \<and> m_size b = 0 \<longrightarrow> is_null_or_empty b)
   \<and> (m_is_null a \<and> \<not> m_is_null b \<and> m_size b = 0 \<longrightarrow>
        is_null_or_empty a \<and> is_null_or_empty b
        \<and> operator_StringData rc a \<noteq> operator_StringData rc b)"
  by (auto simp add: is_null_or_empty_def operator_StringData_def unat_eq_0)

theorem is_null_or_empty_iff_witness:
  "m_is_null \<lparr>m_is_null = True, m_data = [], m_size = 0\<rparr>
   \<and> \<not> m_is_null \<lparr>m_is_null = False, m_data = [], m_size = 0\<rparr>
   \<and> m_size \<lparr>m_is_null = False, m_data = [], m_size = 0\<rparr> = 0
   \<and> is_null_or_empty \<lparr>m_is_null = True, m_data = [], m_size = 0\<rparr>
   \<and> is_null_or_empty \<lparr>m_is_null = False, m_data = [], m_size = 0\<rparr>
   \<and> operator_StringData example_realm \<lparr>m_is_null = True, m_data = [], m_size = 0\<rparr>
       \<noteq> operator_StringData example_realm \<lparr>m_is_null = False, m_data = [], m_size = 0\<rparr>
   \<and> \<not> is_null_or_empty \<lparr>m_is_null = False, m_data = ''a'', m_size = 1\<rparr>"
  using is_null_or_empty_iff
      [of "\<lparr>m_is_null = True, m_data = [], m_size = 0\<rparr>"
          "\<lparr>m_is_null = False, m_data = [], m_size = 0\<rparr>" example_realm]
    is_null_or_empty_iff [of "\<lparr>m_is_null = False, m_data = ''a'', m_size = 1\<rparr>"]
  by simp

subsection \<open>Timestamps\<close>

lemma smod_1000_bounds: "- 999 \<le> (k::int) smod 1000 \<and> k smod 1000 \<le> 999"
  using smod_int_range [where a = k and b = 1000] by simp

lemma sint_word_of_int_32:
  "- 2147483648 \<le> k \<Longrightarrow> k < 2147483648 \<Longrightarrow> sint (word_of_int k :: 32 word) = k"
  by (simp add: signed_of_int signed_take_bit_int_eq_self)

lemma sint_word_of_int_64:
  "- 9223372036854775808 \<le> k \<Longrightarrow> k < 9223372036854775808
     \<Longrightarrow> sint (word_of_int k :: 64 word) = k"
  by (simp add: signed_of_int signed_take_bit_int_eq_self)

lemma ucast_word_of_int_64_32:
  "(ucast (word_of_int k :: 64 word) :: 32 word) = word_of_int k"
  by (simp add: ucast_eq unsigned_of_int word_of_int_eq_iff min_def)

lemma mult_sdiv_1000000: "(r * 1000000) sdiv 1000000 = (r::int)"
  by (simp add: signed_divide_int_def sgn_mult abs_mult sgn_if)

lemma get_nanoseconds_from_milliseconds:
  "get_nanoseconds (from_milliseconds M) = word_of_int ((sint M smod 1000) * 1000000)"
  using ucast_word_of_int_64_32 [of "sint M smod 1000 * 1000000"]
  by (simp add: from_milliseconds_def word_smod_def)

text \<open>The narrowing to \<open>int32_t\<close> loses nothing: the product is within 999000000.\<close>

lemma sint_get_nanoseconds_from_milliseconds:
  "sint (get_nanoseconds (from_milliseconds M)) = (sint M smod 1000) * 1000000"
  using smod_1000_bounds [of "sint M"] sint_word_of_int_32 [of "sint M smod 1000 * 1000000"]
  by (simp add: get_nanoseconds_from_milliseconds)

lemma sint_get_seconds_from_milliseconds:
  "sint (get_seconds (from_milliseconds M)) = sint M sdiv 1000"
proof -
  have "- 9223372036854775808 \<le> sint M" "sint M < 9223372036854775808"
    using sint_ge [of M] sint_lt [of M] by simp_all
  with smod_1000_bounds [of "sint M"] sdiv_mult_smod_eq [of "sint M" 1000]
  have "- 9223372036854775808 \<le> sint M sdiv 1000" "sint M sdiv 1000 < 9223372036854775808"
    by linarith+
  then show ?thesis
    by (simp add: from_milliseconds_def word_sdiv_def sint_word_of_int_64)
qed

text \<open>The round trip, for every \<open>jlong\<close>.\<close>

lemma to_milliseconds_from_milliseconds_all:
  "to_milliseconds (from_milliseconds M) = M"
proof -
  let ?m = "sint M"
  have ns: "word_sdiv (get_nanoseconds (from_milliseconds M)) 1000000
              = (word_of_int (?m smod 1000) :: 32 word)"
    by (simp add: word_sdiv_def sint_get_nanoseconds_from_milliseconds mult_sdiv_1000000)
  have sc: "(scast (word_of_int (?m smod 1000) :: 32 word) :: 64 word)
              = word_of_int (?m smod 1000)"
    using smod_1000_bounds [of ?m] by (simp add: scast_eq sint_word_of_int_32)
  have "to_milliseconds (from_milliseconds M)
          = word_of_int (?m sdiv 1000) * 1000 + word_of_int (?m smod 1000)"
    unfolding to_milliseconds_def Let_def ns sc
    by (simp add: from_milliseconds_def word_sdiv_def)
  also have "\<dots> = word_of_int (?m sdiv 1000 * 1000 + ?m smod 1000)"
    by (simp add: wi_hom_syms)
  also have "\<dots> = M"
    by (simp add: sdiv_mult_smod_eq)
  finally show ?thesis .
qed

text \<open>
  On the way back nothing overflows: the sum that \<open>to_milliseconds\<close> computes, read over
  the integers, is the signed value of \<open>M\<close>.
\<close>

lemma to_milliseconds_from_milliseconds_exact:
  "sint (get_seconds (from_milliseconds M)) * 1000
     + sint (get_nanoseconds (from_milliseconds M)) sdiv 1000000 = sint M"
  by (simp add: sint_get_seconds_from_milliseconds sint_get_nanoseconds_from_milliseconds
        mult_sdiv_1000000 sdiv_mult_smod_eq)

lemma get_nanoseconds_from_milliseconds_negative:
  assumes "M <s 0" and nd: "\<not> 1000 dvd sint M"
  shows "get_nanoseconds (from_milliseconds M) <s 0"
proof -
  from assms have neg: "sint M < 0" by (simp add: word_sless_alt)
  from nd have "\<not> 1000 dvd \<bar>sint M\<bar>" by simp
  then have "\<bar>sint M\<bar> mod 1000 \<noteq> 0" using mod_eq_0_iff_dvd by blast
  moreover have "0 \<le> \<bar>sint M\<bar> mod 1000" by simp
  ultimately have "0 < \<bar>sint M\<bar> mod 1000" by linarith
  with neg have "sint M smod 1000 < 0"
    by (simp add: signed_modulo_int_def)
  then show ?thesis
    by (simp add: word_sless_alt sint_get_nanoseconds_from_milliseconds)
qed

text \<open>
  C2: for every \<open>jlong\<close> \<open>M\<close> that is a non-negative exact multiple of 1000,
  \<open>to_milliseconds (from_milliseconds M) = M\<close>, with no overflow in the sum. For a
  negative \<open>M\<close> that is not a multiple of 1000 the nanosecond component that
  \<open>from_milliseconds\<close> produces is negative: the boundary case the claim sets apart.
\<close>

theorem to_milliseconds_from_milliseconds:
  "(0 \<le>s M \<and> 1000 dvd sint M \<longrightarrow>
      to_milliseconds (from_milliseconds M) = M
      \<and> sint (get_seconds (from_milliseconds M)) * 1000
          + sint (get_nanoseconds (from_milliseconds M)) sdiv 1000000 = sint M)
   \<and> (M <s 0 \<and> \<not> 1000 dvd sint M \<longrightarrow> get_nanoseconds (from_milliseconds M) <s 0)"
  using to_milliseconds_from_milliseconds_all [of M]
    to_milliseconds_from_milliseconds_exact [of M]
    get_nanoseconds_from_milliseconds_negative [of M]
  by blast

theorem to_milliseconds_from_milliseconds_witness:
  "(0 \<le>s (5000::jlong) \<and> 1000 dvd sint (5000::jlong)
      \<and> to_milliseconds (from_milliseconds 5000) = 5000)
   \<and> ((- 1500::jlong) <s 0 \<and> \<not> 1000 dvd sint (- 1500::jlong)
      \<and> get_nanoseconds (from_milliseconds (- 1500)) <s 0)"
  using to_milliseconds_from_milliseconds [of 5000]
    to_milliseconds_from_milliseconds [of "- 1500"]
  by (simp add: word_sle_eq word_sless_alt)

end
